theory Spec2Isabelle
  imports
    Complex_Main
    "HOL-Library.Multiset"
    "HOL-Library.List_Lexorder"
    "HOL-Library.Char_ord"
begin

section \<open>The sensor backend (backend/server.py) over an explicit SQLite table\<close>

text \<open>
  The Flask handlers of \<^verbatim>\<open>backend/server.py\<close> are embedded as functions of the
  request and of the state of the database file \<^verbatim>\<open>sensor_data.db\<close>. What the handlers
  delegate to Flask, to Python's \<^verbatim>\<open>sqlite3\<close> module and to SQLite is written out as
  far as the handlers depend on it:

  \<^item> a JSON value as Python holds it after \<^verbatim>\<open>request.get_json()\<close> is a \<open>json\<close>; a
    Python \<^verbatim>\<open>dict\<close> is an association list with distinct keys, read with \<open>map_of\<close>;
  \<^item> a stored SQLite value is a \<open>sqlval\<close> (NULL, INTEGER, REAL, TEXT; a JSON payload
    cannot produce a BLOB);
  \<^item> a REAL is the real number the double denotes: rounding of floating-point
    arithmetic is not modelled, and NaN and infinities are left out;
  \<^item> a timestamp is the text \<^verbatim>\<open>YYYY-MM-DD HH:MM:SS\<close> that \<^verbatim>\<open>CURRENT_TIMESTAMP\<close>
    yields, compared bytewise as SQLite compares TEXT (the lexicographic order on
    \<open>string\<close>);
  \<^item> every \<^verbatim>\<open>except Exception as e\<close> branch is a branch of the model; an exception is
    represented by its message \<^verbatim>\<open>str(e)\<close>, which is all the handlers use of it.
\<close>

subsection \<open>Values\<close>

datatype json =
    JNull
  | JBool bool
  | JInt int
  | JFloat real
  | JStr string
  | JList "json list"
  | JDict "(string \<times> json) list"

datatype sqlval =
    SNull
  | SInteger int
  | SReal real
  | SText string

text \<open>A Flask handler returns the pair of \<^verbatim>\<open>jsonify(...)\<close> and the status code.\<close>

type_synonym response = "json \<times> nat"

text \<open>What \<^verbatim>\<open>jsonify\<close> makes of a column value fetched from SQLite.\<close>

fun json_of :: "sqlval \<Rightarrow> json" where
  "json_of SNull = JNull"
| "json_of (SInteger n) = JInt n"
| "json_of (SReal x) = JFloat x"
| "json_of (SText s) = JStr s"

subsection \<open>The table \<^verbatim>\<open>sensor_readings\<close>\<close>

text \<open>
  One row of the table created by \<open>init_database\<close>. The column \<^verbatim>\<open>id\<close> is named
  \<open>id_col\<close> here. \<^verbatim>\<open>id\<close> and \<^verbatim>\<open>timestamp\<close> are never bound by the handlers, so they
  always hold an integer and a timestamp text; SQLite is dynamically typed in the other
  columns.
\<close>

record row =
  id_col :: int
  timestamp :: string
  device_id :: sqlval
  temperature :: sqlval
  humidity :: sqlval
  gas_analog :: sqlval
  gas_digital :: sqlval

text \<open>
  The state of the database file as a handler finds it: \<open>Failing m\<close> when
  \<^verbatim>\<open>sqlite3.connect\<close> or the first \<^verbatim>\<open>execute\<close> raises an error with message \<open>m\<close>
  (file unreadable, locked, corrupted), \<open>NoTable\<close> when the file has no table
  \<^verbatim>\<open>sensor_readings\<close>, and \<open>Table rows seq\<close> otherwise: the rows in rowid order
  (the order of a table scan) and the counter that \<^verbatim>\<open>AUTOINCREMENT\<close> keeps in
  \<^verbatim>\<open>sqlite_sequence\<close>. The 64-bit ceiling of rowids is not modelled.
\<close>

datatype storage =
    Failing string
  | NoTable
  | Table "row list" int

subsection \<open>\<^verbatim>\<open>ORDER BY timestamp DESC LIMIT ?\<close>\<close>

text \<open>
  SQL leaves the relative order of rows with equal sort keys open. SQLite, which sorts
  a query with a \<^verbatim>\<open>LIMIT\<close> through an index keyed by the sort key and a sequence number,
  returns them in scan order, that is by ascending rowid. \<open>place_row\<close> puts a row
  in front of the rows that were scanned after it and do not have a later timestamp;
  \<open>order_by_timestamp_desc\<close> does so for the whole scan.
\<close>

fun place_row :: "row \<Rightarrow> row list \<Rightarrow> row list" where
  "place_row r [] = [r]"
| "place_row r (x # xs) =
     (if timestamp x \<le> timestamp r then r # x # xs else x # place_row r xs)"

fun order_by_timestamp_desc :: "row list \<Rightarrow> row list" where
  "order_by_timestamp_desc [] = []"
| "order_by_timestamp_desc (r # rs) = place_row r (order_by_timestamp_desc rs)"

text \<open>A negative \<^verbatim>\<open>LIMIT\<close> means no limit in SQLite.\<close>

definition select_recent :: "int \<Rightarrow> row list \<Rightarrow> row list" where
  "select_recent limit rows =
     (if limit < 0 then order_by_timestamp_desc rows
      else take (nat limit) (order_by_timestamp_desc rows))"



text \<open>Two readings stamped within the same second, used in the examples below.\<close>

definition reading_a :: row where
  "reading_a = \<lparr>id_col = 1, timestamp = ''2024-05-01 10:00:00'',
     device_id = SText ''esp1'', temperature = SReal 22.5, humidity = SReal 60,
     gas_analog = SInteger 150, gas_digital = SInteger 0\<rparr>"

definition reading_b :: row where
  "reading_b = \<lparr>id_col = 2, timestamp = ''2024-05-01 10:00:00'',
     device_id = SText ''esp2'', temperature = SReal 30, humidity = SReal 41,
     gas_analog = SInteger 700, gas_digital = SInteger 1\<rparr>"

subsection \<open>Library functions the handlers call\<close>

text \<open>
  Four conversions between text and numbers are done by Python and SQLite and are not
  determined by the repository's code. They are parameters of the model, and every
  theorem below holds for all of them:
  \<^item> \<open>py_int s\<close>: Python's \<^verbatim>\<open>int(s)\<close> on a query-string value, \<open>None\<close> when it raises
    \<^verbatim>\<open>ValueError\<close>;
  \<^item> \<open>numeric_of_text s\<close>: the INTEGER or REAL that SQLite's column affinity makes of
    a text that is a well-formed numeric literal, \<open>None\<close> for any other text;
  \<^item> \<open>text_of_numeric v\<close>: the text SQLite's TEXT affinity makes of an INTEGER or REAL;
  \<^item> \<open>real_of_text s\<close>: the number SQLite's \<^verbatim>\<open>AVG\<close> reads from a text.
\<close>

record library =
  py_int :: "string \<Rightarrow> int option"
  numeric_of_text :: "string \<Rightarrow> sqlval option"
  text_of_numeric :: "sqlval \<Rightarrow> string"
  real_of_text :: "string \<Rightarrow> real"

text \<open>Sequencing of steps that may raise: the first exception ends the \<^verbatim>\<open>try\<close> block.\<close>

definition and_then :: "string + 'a \<Rightarrow> ('a \<Rightarrow> string + 'b) \<Rightarrow> string + 'b" where
  "and_then m f = (case m of Inl e \<Rightarrow> Inl e | Inr x \<Rightarrow> f x)"

subsection \<open>Binding parameters and column affinity\<close>

text \<open>
  \<^verbatim>\<open>sqlite3\<close> binds \<^verbatim>\<open>None\<close>, \<^verbatim>\<open>int\<close> (\<^verbatim>\<open>bool\<close> is a subclass), \<^verbatim>\<open>float\<close> and \<^verbatim>\<open>str\<close>.
  It raises \<^verbatim>\<open>OverflowError\<close> for an \<^verbatim>\<open>int\<close> outside the signed 64-bit range and an
  error for a \<^verbatim>\<open>list\<close> or a \<^verbatim>\<open>dict\<close> (the text of the latter varies with the Python
  version and is shortened here).
\<close>

definition int64 :: "int \<Rightarrow> bool" where
  "int64 n \<longleftrightarrow> - (2 ^ 63) \<le> n \<and> n < 2 ^ 63"

fun bind_param :: "json \<Rightarrow> string + sqlval" where
  "bind_param JNull = Inr SNull"
| "bind_param (JBool b) = Inr (SInteger (if b then 1 else 0))"
| "bind_param (JInt n) =
     (if int64 n then Inr (SInteger n)
      else Inl ''Python int too large to convert to SQLite INTEGER'')"
| "bind_param (JFloat x) = Inr (SReal x)"
| "bind_param (JStr s) = Inr (SText s)"
| "bind_param (JList vs) = Inl ''Error binding parameter: type is not supported''"
| "bind_param (JDict kvs) = Inl ''Error binding parameter: type is not supported''"

text \<open>
  The declared column types of \<open>init_database\<close> give \<^verbatim>\<open>device_id\<close> TEXT affinity,
  \<^verbatim>\<open>temperature\<close> and \<^verbatim>\<open>humidity\<close> REAL affinity, \<^verbatim>\<open>gas_analog\<close> and \<^verbatim>\<open>gas_digital\<close>
  INTEGER affinity. SQLite converts a value on insertion where the conversion is
  lossless and stores it as it is otherwise.
\<close>

fun text_affinity :: "library \<Rightarrow> sqlval \<Rightarrow> sqlval" where
  "text_affinity lib (SInteger n) = SText (text_of_numeric lib (SInteger n))"
| "text_affinity lib (SReal x) = SText (text_of_numeric lib (SReal x))"
| "text_affinity lib v = v"

fun as_real :: "sqlval \<Rightarrow> sqlval" where
  "as_real (SInteger n) = SReal (of_int n)"
| "as_real v = v"

fun real_affinity :: "library \<Rightarrow> sqlval \<Rightarrow> sqlval" where
  "real_affinity lib (SText s) =
     (case numeric_of_text lib s of None \<Rightarrow> SText s | Some v \<Rightarrow> as_real v)"
| "real_affinity lib v = as_real v"

fun as_integer :: "sqlval \<Rightarrow> sqlval" where
  "as_integer (SReal x) =
     (if x = of_int \<lfloor>x\<rfloor> \<and> int64 \<lfloor>x\<rfloor> then SInteger \<lfloor>x\<rfloor> else SReal x)"
| "as_integer v = v"

fun integer_affinity :: "library \<Rightarrow> sqlval \<Rightarrow> sqlval" where
  "integer_affinity lib (SText s) =
     (case numeric_of_text lib s of None \<Rightarrow> SText s | Some v \<Rightarrow> as_integer v)"
| "integer_affinity lib v = as_integer v"

subsection \<open>\<open>init_database\<close>\<close>

text \<open>
  \<^verbatim>\<open>CREATE TABLE IF NOT EXISTS\<close>: creates the empty table when the file has none and
  does nothing otherwise. The function has no \<^verbatim>\<open>try\<close>: an error of the database
  propagates to the caller (\<open>Inl\<close>).
\<close>

fun init_database :: "storage \<Rightarrow> string + storage" where
  "init_database (Failing m) = Inl m"
| "init_database NoTable = Inr (Table [] 0)"
| "init_database (Table rows seq) = Inr (Table rows seq)"

subsection \<open>\<open>receive_sensor_data\<close> (POST /api/sensor-data)\<close>

text \<open>
  \<^verbatim>\<open>request.get_json()\<close> either raises (\<open>Unparseable\<close>, with the message of the
  exception) or returns the parsed value.
\<close>

datatype request_body =
    Unparseable string
  | Json json

fun py_type_name :: "json \<Rightarrow> string" where
  "py_type_name JNull = ''NoneType''"
| "py_type_name (JBool b) = ''bool''"
| "py_type_name (JInt n) = ''int''"
| "py_type_name (JFloat x) = ''float''"
| "py_type_name (JStr s) = ''str''"
| "py_type_name (JList vs) = ''list''"
| "py_type_name (JDict kvs) = ''dict''"

text \<open>\<^verbatim>\<open>data.get(key)\<close> and \<^verbatim>\<open>data.get(key, default)\<close> on a \<^verbatim>\<open>dict\<close>.\<close>

definition dict_get :: "(string \<times> json) list \<Rightarrow> string \<Rightarrow> json \<Rightarrow> json" where
  "dict_get kvs key dflt = (case map_of kvs key of None \<Rightarrow> dflt | Some v \<Rightarrow> v)"

text \<open>
  \<^verbatim>\<open>AUTOINCREMENT\<close>: the new rowid is one more than the largest rowid the table has
  ever held.
\<close>

definition next_id :: "row list \<Rightarrow> int \<Rightarrow> int" where
  "next_id rows seq = foldr (\<lambda>r m. max (id_col r) m) rows seq + 1"

text \<open>
  The \<^verbatim>\<open>INSERT\<close> with its five parameters, in the order in which \<^verbatim>\<open>sqlite3\<close> fails:
  opening the file and preparing the statement, then binding the parameters from left
  to right. The columns \<^verbatim>\<open>id\<close> and \<^verbatim>\<open>timestamp\<close> are not in the column list: they get
  the next rowid and \<^verbatim>\<open>CURRENT_TIMESTAMP\<close> (\<open>now\<close>).
\<close>

definition insert_reading ::
  "library \<Rightarrow> string \<Rightarrow> storage \<Rightarrow> json \<Rightarrow> json \<Rightarrow> json \<Rightarrow> json \<Rightarrow> json \<Rightarrow> string + storage" where
  "insert_reading lib now db dev temp hum gas_a gas_d =
     (case db of
        Failing m \<Rightarrow> Inl m
      | NoTable \<Rightarrow> Inl ''no such table: sensor_readings''
      | Table rows seq \<Rightarrow>
          and_then (bind_param dev) (\<lambda>d.
          and_then (bind_param temp) (\<lambda>t.
          and_then (bind_param hum) (\<lambda>h.
          and_then (bind_param gas_a) (\<lambda>ga.
          and_then (bind_param gas_d) (\<lambda>gd.
            Inr (Table
              (rows @ [\<lparr>id_col = next_id rows seq, timestamp = now,
                 device_id = text_affinity lib d,
                 temperature = real_affinity lib t,
                 humidity = real_affinity lib h,
                 gas_analog = integer_affinity lib ga,
                 gas_digital = integer_affinity lib gd\<rparr>])
              (next_id rows seq))))))))"

text \<open>The body of the \<^verbatim>\<open>try\<close> block: \<open>Inl\<close> is the exception it ends with.\<close>

definition store_payload :: "library \<Rightarrow> string \<Rightarrow> storage \<Rightarrow> request_body \<Rightarrow> string + storage" where
  "store_payload lib now db body =
     (case body of
        Unparseable m \<Rightarrow> Inl m
      | Json (JDict kvs) \<Rightarrow>
          insert_reading lib now db
            (dict_get kvs ''device_id'' (JStr ''unknown''))
            (dict_get kvs ''temperature'' JNull)
            (dict_get kvs ''humidity'' JNull)
            (dict_get kvs ''gas_analog'' JNull)
            (dict_get kvs ''gas_digital'' JNull)
      | Json data \<Rightarrow>
          Inl (CHR 0x27 # py_type_name data @ CHR 0x27 # '' object has no attribute ''
               @ CHR 0x27 # ''get'' @ [CHR 0x27]))"

definition receive_sensor_data ::
  "library \<Rightarrow> string \<Rightarrow> storage \<Rightarrow> request_body \<Rightarrow> response \<times> storage" where
  "receive_sensor_data lib now db body =
     (case store_payload lib now db body of
        Inr db' \<Rightarrow>
          ((JDict [(''status'', JStr ''success''),
                   (''message'', JStr ''Data stored successfully'')], 201), db')
      | Inl e \<Rightarrow>
          ((JDict [(''status'', JStr ''error''), (''message'', JStr e)], 400), db))"

subsection \<open>\<open>get_sensor_data\<close> (GET /api/sensor-data)\<close>

text \<open>
  \<^verbatim>\<open>request.args.get('limit', 100, type=int)\<close>: the default when the key is absent
  and when the conversion raises \<^verbatim>\<open>ValueError\<close>.
\<close>

definition limit_arg :: "library \<Rightarrow> (string \<rightharpoonup> string) \<Rightarrow> int" where
  "limit_arg lib args =
     (case args ''limit'' of
        None \<Rightarrow> 100
      | Some s \<Rightarrow> (case py_int lib s of None \<Rightarrow> 100 | Some n \<Rightarrow> n))"

definition row_json :: "row \<Rightarrow> json" where
  "row_json r = JDict
     [(''id'', JInt (id_col r)),
      (''timestamp'', JStr (timestamp r)),
      (''device_id'', json_of (device_id r)),
      (''temperature'', json_of (temperature r)),
      (''humidity'', json_of (humidity r)),
      (''gas_analog'', json_of (gas_analog r)),
      (''gas_digital'', json_of (gas_digital r))]"

definition get_sensor_data :: "library \<Rightarrow> storage \<Rightarrow> (string \<rightharpoonup> string) \<Rightarrow> response" where
  "get_sensor_data lib db args =
     (let limit = limit_arg lib args in
      case db of
        Failing m \<Rightarrow> (JDict [(''error'', JStr m)], 400)
      | NoTable \<Rightarrow> (JDict [(''error'', JStr ''no such table: sensor_readings'')], 400)
      | Table rows seq \<Rightarrow>
          (case bind_param (JInt limit) of
             Inl e \<Rightarrow> (JDict [(''error'', JStr e)], 400)
           | Inr l \<Rightarrow> (JList (map row_json (select_recent limit rows)), 200)))"

subsection \<open>\<open>get_latest\<close> (GET /api/latest)\<close>

text \<open>The five columns the query of \<open>get_latest\<close> selects, under the keys of its response.\<close>

definition latest_json :: "row \<Rightarrow> json" where
  "latest_json r = JDict
     [(''timestamp'', JStr (timestamp r)),
      (''temperature'', json_of (temperature r)),
      (''humidity'', json_of (humidity r)),
      (''gas_analog'', json_of (gas_analog r)),
      (''gas_digital'', json_of (gas_digital r))]"

definition get_latest :: "storage \<Rightarrow> response" where
  "get_latest db =
     (case db of
        Failing m \<Rightarrow> (JDict [(''error'', JStr m)], 400)
      | NoTable \<Rightarrow> (JDict [(''error'', JStr ''no such table: sensor_readings'')], 400)
      | Table rows seq \<Rightarrow>
          (case select_recent 1 rows of
             [] \<Rightarrow> (JDict [(''message'', JStr ''No data available'')], 404)
           | r # rs \<Rightarrow> (latest_json r, 200)))"

text \<open>The keys of a JSON object.\<close>

fun json_keys :: "json \<Rightarrow> string list" where
  "json_keys (JDict kvs) = map fst kvs"
| "json_keys v = []"

subsection \<open>\<open>get_stats\<close> (GET /api/stats)\<close>











text \<open>Reading a member of a response body, and a member of a nested object.\<close>

fun json_member :: "json \<Rightarrow> string \<Rightarrow> json option" where
  "json_member (JDict kvs) key = map_of kvs key"
| "json_member v key = None"




subsection \<open>An instance of the library functions for the examples\<close>

text \<open>
  \<open>decimal_library\<close> reads decimal integers with an optional sign, which is what
  the examples need of the four conversions; it stands for no more of Python or SQLite
  than that.
\<close>

fun digits_value :: "int \<Rightarrow> string \<Rightarrow> int option" where
  "digits_value acc [] = Some acc"
| "digits_value acc (c # cs) =
     (if CHR ''0'' \<le> c \<and> c \<le> CHR ''9''
      then digits_value (10 * acc + (of_char c - 48)) cs else None)"

fun decimal_int :: "string \<Rightarrow> int option" where
  "decimal_int [] = None"
| "decimal_int (c # cs) =
     (if c = CHR ''-'' then (if cs = [] then None else map_option uminus (digits_value 0 cs))
      else if c = CHR ''+'' then (if cs = [] then None else digits_value 0 cs)
      else digits_value 0 (c # cs))"

definition decimal_library :: library where
  "decimal_library = \<lparr>py_int = decimal_int,
     numeric_of_text = (\<lambda>s. map_option SInteger (decimal_int s)),
     text_of_numeric = (\<lambda>v. []),
     real_of_text = (\<lambda>s. case decimal_int s of None \<Rightarrow> 0 | Some n \<Rightarrow> of_int n)\<rparr>"

subsection \<open>Well-formed payloads\<close>






subsection \<open>Typed payload values and equality of JSON numbers\<close>









section \<open>Properties\<close>

subsection \<open>The recent query\<close>

lemma length_place_row: "length (place_row r xs) = Suc (length xs)"
  by (induction xs) auto

lemma length_order_by_timestamp_desc: "length (order_by_timestamp_desc rows) = length rows"
  by (induction rows) (auto simp: length_place_row)

lemma mset_place_row: "mset (place_row r xs) = add_mset r (mset xs)"
  by (induction xs) auto

lemma mset_order_by_timestamp_desc: "mset (order_by_timestamp_desc rows) = mset rows"
  by (induction rows) (auto simp: mset_place_row)





lemma get_sensor_data_selects:
  "int64 (limit_arg lib args) \<Longrightarrow>
     get_sensor_data lib (Table rows seq) args =
       (JList (map row_json (select_recent (limit_arg lib args) rows)), 200)"
  by (simp add: get_sensor_data_def Let_def)





subsection \<open>The latest reading\<close>

lemma set_order_by_timestamp_desc: "set (order_by_timestamp_desc rows) = set rows"
  by (metis mset_order_by_timestamp_desc set_mset_mset)

lemma select_recent_one:
  assumes "rows \<noteq> []"
  shows "\<exists>r rs. r \<in> set rows \<and> select_recent 1 rows = [r]
    \<and> order_by_timestamp_desc rows = r # rs"
proof -
  have "order_by_timestamp_desc rows \<noteq> []"
    using assms length_order_by_timestamp_desc [of rows] by (metis length_0_conv)
  then obtain r rs where ord: "order_by_timestamp_desc rows = r # rs"
    by (cases "order_by_timestamp_desc rows") auto
  have "r \<in> set (order_by_timestamp_desc rows)"
    by (simp add: ord)
  then have "r \<in> set rows"
    by (simp add: set_order_by_timestamp_desc)
  with ord show ?thesis
    by (simp add: select_recent_def)
qed

text \<open>
  C4. On an empty table \<open>get_latest\<close> answers 404 with a message and no \<^verbatim>\<open>error\<close> member,
  which is not the answer of its \<^verbatim>\<open>except\<close> branch (400 with an \<^verbatim>\<open>error\<close> member); on a
  table that holds exactly one reading it answers 200 with the columns of that reading
  which its query selects.
\<close>

theorem get_latest_empty_404_single_200:
  "get_latest (Table [] seq) = (JDict [(''message'', JStr ''No data available'')], 404)
   \<and> json_member (fst (get_latest (Table [] seq))) ''error'' = None
   \<and> get_latest (Table [r] seq) =
       (JDict [(''timestamp'', JStr (timestamp r)),
               (''temperature'', json_of (temperature r)),
               (''humidity'', json_of (humidity r)),
               (''gas_analog'', json_of (gas_analog r)),
               (''gas_digital'', json_of (gas_digital r))], 200)"
  by (simp add: get_latest_def select_recent_def latest_json_def)

text \<open>
  C5 (as amended). For every non-empty table the success response of \<open>get_latest\<close> is
  the object of one stored reading with exactly the five members \<^verbatim>\<open>timestamp\<close>,
  \<^verbatim>\<open>temperature\<close>, \<^verbatim>\<open>humidity\<close>, \<^verbatim>\<open>gas_analog\<close> and \<^verbatim>\<open>gas_digital\<close>.
\<close>

theorem get_latest_has_five_members:
  assumes "rows \<noteq> []"
  shows "(\<exists>r \<in> set rows. get_latest (Table rows seq) = (latest_json r, 200))
    \<and> json_keys (fst (get_latest (Table rows seq))) =
        [''timestamp'', ''temperature'', ''humidity'', ''gas_analog'', ''gas_digital'']"
proof -
  obtain r where r: "r \<in> set rows" and sel: "select_recent 1 rows = [r]"
    using select_recent_one [OF assms] by blast
  have "get_latest (Table rows seq) = (latest_json r, 200)"
    by (simp add: get_latest_def sel)
  with r show ?thesis
    by (auto simp: latest_json_def)
qed

theorem get_latest_has_five_members_witness:
  "[reading_a, reading_b] \<noteq> []
   \<and> json_keys (fst (get_latest (Table [reading_a, reading_b] 2))) =
        [''timestamp'', ''temperature'', ''humidity'', ''gas_analog'', ''gas_digital'']"
  using get_latest_has_five_members [of "[reading_a, reading_b]" 2] by simp

text \<open>
  C5 (as stated) fails: the success response of \<open>get_latest\<close> has no member \<^verbatim>\<open>id\<close> and
  no member \<^verbatim>\<open>device_id\<close>.
\<close>

theorem get_latest_lacks_id_and_device_id:
  "snd (get_latest (Table [reading_a] 1)) = 200
   \<and> json_member (fst (get_latest (Table [reading_a] 1))) ''id'' = None
   \<and> json_member (fst (get_latest (Table [reading_a] 1))) ''device_id'' = None"
  by (simp add: get_latest_def select_recent_def latest_json_def)

subsection \<open>Failures of ingestion\<close>

text \<open>
  C6 (as amended). When the database fails (the file cannot be used, or it has no table
  \<^verbatim>\<open>sensor_readings\<close>) \<open>receive_sensor_data\<close> answers 400, the status it also gives an
  unparseable payload; in each case the body has \<^verbatim>\<open>status\<close> \<^verbatim>\<open>error\<close> and the message
  of the exception, and the database is left as it was. Every answer of
  \<open>receive_sensor_data\<close> is either the 201 acknowledgment or such a 400 answer.
\<close>

theorem receive_sensor_data_failure_is_400:
  "receive_sensor_data lib now (Failing m) (Json (JDict kvs)) =
     ((JDict [(''status'', JStr ''error''), (''message'', JStr m)], 400), Failing m)
   \<and> receive_sensor_data lib now NoTable (Json (JDict kvs)) =
     ((JDict [(''status'', JStr ''error''),
              (''message'', JStr ''no such table: sensor_readings'')], 400), NoTable)
   \<and> receive_sensor_data lib now db (Unparseable m) =
     ((JDict [(''status'', JStr ''error''), (''message'', JStr m)], 400), db)
   \<and> ((\<exists>e. receive_sensor_data lib now db body =
            ((JDict [(''status'', JStr ''error''), (''message'', JStr e)], 400), db))
        \<or> (\<exists>db'. receive_sensor_data lib now db body =
            ((JDict [(''status'', JStr ''success''),
                     (''message'', JStr ''Data stored successfully'')], 201), db')))"
proof -
  have "(\<exists>e. store_payload lib now db body = Inl e) \<or> (\<exists>db'. store_payload lib now db body = Inr db')"
    by (cases "store_payload lib now db body") auto
  then show ?thesis
    by (auto simp: receive_sensor_data_def store_payload_def insert_reading_def)
qed

text \<open>
  C6 (as stated) fails: a failing database is answered with status 400, not with a
  status from 500 on, and an unparseable payload is answered with the same status.
\<close>

theorem storage_failure_is_not_5xx:
  "snd (fst (receive_sensor_data decimal_library ''2024-05-01 10:00:00''
        (Failing ''disk I/O error'') (Json (JDict [(''temperature'', JFloat 22.5)])))) = 400
   \<and> snd (fst (receive_sensor_data decimal_library ''2024-05-01 10:00:00''
        (Table [] 0) (Unparseable ''400 Bad Request''))) = 400
   \<and> \<not> 500 \<le> snd (fst (receive_sensor_data decimal_library ''2024-05-01 10:00:00''
        (Failing ''disk I/O error'') (Json (JDict [(''temperature'', JFloat 22.5)]))))"
  by (simp add: receive_sensor_data_def store_payload_def insert_reading_def)

subsection \<open>Initialisation\<close>

text \<open>
  C7. For every table state, \<open>init_database\<close> succeeds and leaves the table, with every
  row, as it was; so does a second call after the first. On a file without the table the
  first call creates the empty table and the second leaves it.
\<close>

theorem init_database_twice_keeps_rows:
  "init_database (Table rows seq) = Inr (Table rows seq)
   \<and> and_then (init_database (Table rows seq)) init_database = Inr (Table rows seq)
   \<and> and_then (init_database NoTable) init_database = Inr (Table [] 0)"
  by (simp add: and_then_def)


subsection \<open>The limit parameter and the empty table\<close>

text \<open>
  C8 (as amended). When the \<^verbatim>\<open>limit\<close> parameter is absent or \<^verbatim>\<open>int\<close> cannot parse
  it, \<open>get_sensor_data\<close> uses the limit 100. For every request whose limit (after
  defaulting) lies in the signed 64-bit range, \<open>get_sensor_data\<close> on a table without
  rows answers 200 with the empty list. A limit outside that range is answered with
  status 400 whatever the table holds, because \<^verbatim>\<open>sqlite3\<close> cannot bind it.
\<close>

theorem limit_default_and_empty_table:
  "((args ''limit'' = None \<or> (\<exists>s. args ''limit'' = Some s \<and> py_int lib s = None)) \<longrightarrow>
       limit_arg lib args = 100
       \<and> get_sensor_data lib (Table rows seq) args =
           (JList (map row_json (select_recent 100 rows)), 200))
   \<and> (int64 (limit_arg lib args) \<longrightarrow>
       get_sensor_data lib (Table [] seq) args = (JList [], 200))
   \<and> (\<not> int64 (limit_arg lib args) \<longrightarrow>
       get_sensor_data lib (Table rows seq) args =
         (JDict [(''error'', JStr ''Python int too large to convert to SQLite INTEGER'')], 400))"
proof (intro conjI impI)
  assume "args ''limit'' = None \<or> (\<exists>s. args ''limit'' = Some s \<and> py_int lib s = None)"
  then have l: "limit_arg lib args = 100"
    by (auto simp: limit_arg_def)
  then show "limit_arg lib args = 100" .
  show "get_sensor_data lib (Table rows seq) args =
           (JList (map row_json (select_recent 100 rows)), 200)"
    by (simp add: get_sensor_data_def l int64_def)
next
  assume "int64 (limit_arg lib args)"
  then show "get_sensor_data lib (Table [] seq) args = (JList [], 200)"
    by (simp add: get_sensor_data_def select_recent_def Let_def)
next
  assume "\<not> int64 (limit_arg lib args)"
  then show "get_sensor_data lib (Table rows seq) args =
         (JDict [(''error'', JStr ''Python int too large to convert to SQLite INTEGER'')], 400)"
    by (simp add: get_sensor_data_def)
qed

theorem limit_default_and_empty_table_witness:
  "(\<exists>s. [''limit'' \<mapsto> ''abc''] ''limit'' = Some s \<and> py_int decimal_library s = None)
   \<and> limit_arg decimal_library [''limit'' \<mapsto> ''abc''] = 100
   \<and> int64 (limit_arg decimal_library [''limit'' \<mapsto> ''abc''])
   \<and> get_sensor_data decimal_library (Table [] 0) [''limit'' \<mapsto> ''abc''] = (JList [], 200)
   \<and> \<not> int64 (limit_arg decimal_library [''limit'' \<mapsto> ''9223372036854775808''])
   \<and> get_sensor_data decimal_library (Table [reading_a] 1)
         [''limit'' \<mapsto> ''9223372036854775808''] =
       (JDict [(''error'', JStr ''Python int too large to convert to SQLite INTEGER'')], 400)"
proof -
  let ?abc = "[''limit'' \<mapsto> ''abc'']"
  let ?big = "[''limit'' \<mapsto> ''9223372036854775808'']"
  have a: "\<exists>s. ?abc ''limit'' = Some s \<and> py_int decimal_library s = None"
    by (simp add: decimal_library_def)
  have b: "int64 (limit_arg decimal_library ?abc)"
    by (simp add: limit_arg_def decimal_library_def int64_def)
  have c: "\<not> int64 (limit_arg decimal_library ?big)"
    by (simp add: limit_arg_def decimal_library_def int64_def)
  have "limit_arg decimal_library ?abc = 100"
    using a limit_default_and_empty_table [of ?abc decimal_library "[]" 0] by blast
  moreover have "get_sensor_data decimal_library (Table [] 0) ?abc = (JList [], 200)"
    using b limit_default_and_empty_table [of ?abc decimal_library "[]" 0] by blast
  moreover have "get_sensor_data decimal_library (Table [reading_a] 1) ?big =
       (JDict [(''error'', JStr ''Python int too large to convert to SQLite INTEGER'')], 400)"
    using c limit_default_and_empty_table [of ?big decimal_library "[reading_a]" 1] by blast
  ultimately show ?thesis
    using a b c by blast
qed

text \<open>
  C8 (as stated) fails for a request with \<^verbatim>\<open>limit=9223372036854775808\<close>: on a table
  without rows the answer is an error with status 400, not the empty list.
\<close>

theorem oversized_limit_errors_on_empty_table:
  "get_sensor_data decimal_library (Table [] 0) [''limit'' \<mapsto> ''9223372036854775808''] =
     (JDict [(''error'', JStr ''Python int too large to convert to SQLite INTEGER'')], 400)"
  by (simp add: get_sensor_data_def limit_arg_def decimal_library_def int64_def)


subsection \<open>What ingestion stores\<close>





lemma map_of_without_timestamp:
  "key \<noteq> ''timestamp'' \<Longrightarrow>
     map_of (filter (\<lambda>kv. fst kv \<noteq> ''timestamp'') kvs) key = map_of kvs key"
  by (induction kvs) auto

text \<open>
  C10. A \<^verbatim>\<open>timestamp\<close> member of the payload changes neither the answer nor the
  stored state: the payload without it is treated alike. Whatever the request, the
  table is either left as it was or extended by one reading whose timestamp is the
  \<^verbatim>\<open>CURRENT_TIMESTAMP\<close> of the insertion.
\<close>

theorem payload_timestamp_is_ignored:
  "receive_sensor_data lib now db (Json (JDict kvs)) =
     receive_sensor_data lib now db (Json (JDict (filter (\<lambda>kv. fst kv \<noteq> ''timestamp'') kvs)))
   \<and> (snd (receive_sensor_data lib now (Table rows seq) body) = Table rows seq
      \<or> (\<exists>r. snd (receive_sensor_data lib now (Table rows seq) body) =
                Table (rows @ [r]) (next_id rows seq)
              \<and> timestamp r = now))"
proof
  show "receive_sensor_data lib now db (Json (JDict kvs)) =
     receive_sensor_data lib now db (Json (JDict (filter (\<lambda>kv. fst kv \<noteq> ''timestamp'') kvs)))"
    by (simp add: receive_sensor_data_def store_payload_def dict_get_def map_of_without_timestamp)
next
  show "snd (receive_sensor_data lib now (Table rows seq) body) = Table rows seq
      \<or> (\<exists>r. snd (receive_sensor_data lib now (Table rows seq) body) =
                Table (rows @ [r]) (next_id rows seq)
              \<and> timestamp r = now)"
  proof (cases "store_payload lib now (Table rows seq) body")
    case (Inl e)
    then show ?thesis by (simp add: receive_sensor_data_def)
  next
    case (Inr db')
    then have "\<exists>r. db' = Table (rows @ [r]) (next_id rows seq) \<and> timestamp r = now"
      by (auto simp: store_payload_def insert_reading_def and_then_def
               split: request_body.splits json.splits sum.splits)
    with Inr show ?thesis by (auto simp: receive_sensor_data_def)
  qed
qed



subsection \<open>Round trip\<close>









subsection \<open>Statistics\<close>














end
